theory Spec2Isabelle
  imports Complex_Main
begin

section \<open>GameStore: the request cache of ApiManager and the rating stars\<close>

text \<open>
  The development embeds the class \<open>ApiManager\<close> (constructor, \<open>makeRequest\<close>,
  \<open>fetchProducts\<close>), \<open>DataLoader.clearCache\<close> and
  \<open>ProductRenderer.createRatingStars\<close>. What the platform does during a call
  (the clock, the network, the timer) is an explicit argument of the call, so that every
  path through the source is a branch of a total function. A call is taken from its
  start to its settlement in one step: calls on a manager follow one another and do not
  overlap, and the promises the call awaits settle.
\<close>

subsection \<open>Values of the platform\<close>

text \<open>A thrown value: an error object with its \<open>name\<close> and its \<open>message\<close>.\<close>

datatype js_error = JsError (err_name: string) (err_message: string)

text \<open>
  The value \<open>response.json()\<close> yields. The source never looks inside it, except
  that the accessors return the empty array on failure.
\<close>

datatype json =
    JNull
  | JBool bool
  | JNum rat
  | JStr string
  | JArr "json list"
  | JObj "(string \<times> json) list"

text \<open>
  A number in a template literal: \<open>`${n}`\<close> of a non-negative integer is its
  decimal numeral.
\<close>

definition digit_char :: "nat \<Rightarrow> char" where
  "digit_char d = ''0123456789'' ! (d mod 10)"

function show_nat :: "nat \<Rightarrow> string" where
  "show_nat n = (if n < 10 then [digit_char n] else show_nat (n div 10) @ [digit_char n])"
  by pat_completeness auto
termination
  by (relation "measure id") auto

declare show_nat.simps [simp del]

subsection \<open>The built-in Map\<close>

text \<open>
  A JavaScript \<open>Map\<close> keeps its entries in insertion order; \<open>set\<close> overwrites
  the value of a key that is present, where it stands, and appends a new entry otherwise.
  The model is the list of entries, so that the number of entries of a key is something
  to prove and not a property of the type.
\<close>

fun Map_has :: "('k \<times> 'v) list \<Rightarrow> 'k \<Rightarrow> bool" where
  "Map_has [] k = False"
| "Map_has ((k', v) # m) k = (if k' = k then True else Map_has m k)"

fun Map_get :: "('k \<times> 'v) list \<Rightarrow> 'k \<Rightarrow> 'v option" where
  "Map_get [] k = None"
| "Map_get ((k', v) # m) k = (if k' = k then Some v else Map_get m k)"

fun Map_set :: "('k \<times> 'v) list \<Rightarrow> 'k \<Rightarrow> 'v \<Rightarrow> ('k \<times> 'v) list" where
  "Map_set [] k v = [(k, v)]"
| "Map_set ((k', v') # m) k v = (if k' = k then (k, v) # m else (k', v') # Map_set m k v)"

definition Map_clear :: "('k \<times> 'v) list \<Rightarrow> ('k \<times> 'v) list" where
  "Map_clear m = []"

text \<open>The entries a map holds for one key.\<close>

definition entries_of :: "('k \<times> 'v) list \<Rightarrow> 'k \<Rightarrow> ('k \<times> 'v) list" where
  "entries_of m k = filter (\<lambda>p. fst p = k) m"

subsection \<open>ApiManager: the object and its constructor\<close>

record cache_entry =
  data :: json
  timestamp :: int

record ApiManager =
  baseUrls_products :: string
  baseUrls_users :: string
  cache :: "(string \<times> cache_entry) list"
  requestTimeout :: nat

text \<open>The fields the constructor body assigns (lines 15 to 21).\<close>

definition ApiManager_fields :: ApiManager where
  "ApiManager_fields =
     \<lparr> baseUrls_products = ''https://fakestoreapi.com/products'',
       baseUrls_users = ''https://randomuser.me/api'',
       cache = [],
       requestTimeout = 10000 \<rparr>"

text \<open>
  Objects live in a store and are named by their position in it; the static field
  \<open>ApiManager.instance\<close> holds a reference or is undefined.
\<close>

record js_heap =
  objects :: "ApiManager list"
  ApiManager_instance :: "nat option"

definition initial_heap :: js_heap where
  "initial_heap = \<lparr> objects = [], ApiManager_instance = None \<rparr>"

text \<open>
  \<open>new ApiManager()\<close>: when the static field is set the constructor returns it and
  the object just allocated is dropped; otherwise the new object is initialised,
  registered and returned.
\<close>

definition new_ApiManager :: "js_heap \<Rightarrow> nat \<times> js_heap" where
  "new_ApiManager h =
     (case ApiManager_instance h of
        Some r \<Rightarrow> (r, h)
      | None \<Rightarrow>
          (let this = length (objects h)
           in (this, h \<lparr> objects := objects h @ [ApiManager_fields],
                         ApiManager_instance := Some this \<rparr>)))"

text \<open>A number of constructions in a row, with the references they return.\<close>

fun constructions :: "nat \<Rightarrow> js_heap \<Rightarrow> nat list \<times> js_heap" where
  "constructions 0 h = ([], h)"
| "constructions (Suc n) h =
     (case new_ApiManager h of
        (r, h') \<Rightarrow> (case constructions n h' of (rs, h'') \<Rightarrow> (r # rs, h'')))"

subsection \<open>What the platform does during one call\<close>

text \<open>
  A response carries its status; \<open>response.ok\<close> is true exactly for the statuses
  200 to 299. \<open>json_body\<close> is what \<open>response.json()\<close> settles to: the parsed
  value, or the error it rejects with.
\<close>

record response =
  status :: nat
  json_body :: "js_error + json"

definition response_ok :: "response \<Rightarrow> bool" where
  "response_ok r = (200 \<le> status r \<and> status r \<le> 299)"

text \<open>
  \<open>now_at_check\<close> and \<open>now_at_store\<close> are the values of \<open>Date.now()\<close> at
  lines 38 and 67. \<open>fetch_settles_after\<close> is the time in milliseconds after which
  \<open>fetch\<close> would settle if nothing aborted it (\<open>None\<close>: never), and
  \<open>fetch_settles_to\<close> how: a response, or the error it rejects with.
  \<open>abort_reason\<close> is the error \<open>fetch\<close> rejects with once
  \<open>controller.abort()\<close> has run. \<open>json_settles_after\<close> is the time in
  milliseconds the body read of line 62 takes, from the moment \<open>fetch\<close> resolved
  to the moment \<open>response.json()\<close> settles.
\<close>

record call_env =
  now_at_check :: int
  fetch_settles_after :: "nat option"
  fetch_settles_to :: "js_error + response"
  abort_reason :: js_error
  json_settles_after :: nat
  now_at_store :: int

text \<open>
  Lines 45 to 56: the timer of \<open>timeout\<close> milliseconds aborts the request unless
  \<open>fetch\<close> has settled before it fires; once \<open>fetch\<close> has resolved the timer
  is cleared.
\<close>

definition fetch_with_timer :: "nat \<Rightarrow> call_env \<Rightarrow> js_error + response" where
  "fetch_with_timer timeout env =
     (case fetch_settles_after env of
        None \<Rightarrow> Inl (abort_reason env)
      | Some t \<Rightarrow> if t < timeout then fetch_settles_to env else Inl (abort_reason env))"

subsection \<open>makeRequest\<close>

text \<open>
  \<open>JSON.stringify\<close> is a function of the platform: the model takes it as the
  argument \<open>stringify\<close>, a function from the options to the string it returns
  for them, and assumes nothing else about it. Line 33 puts the URL, the character
  \<open>_\<close> and that string together.
\<close>

definition cacheKey :: "('o \<Rightarrow> string) \<Rightarrow> string \<Rightarrow> 'o \<Rightarrow> string" where
  "cacheKey stringify url options = url @ ''_'' @ stringify options"

text \<open>Lines 36 to 42: the stored data when the key is present and fresh.\<close>

definition cache_lookup :: "ApiManager \<Rightarrow> string \<Rightarrow> int \<Rightarrow> json option" where
  "cache_lookup this key now =
     (if Map_has (cache this) key then
        (case Map_get (cache this) key of
           None \<Rightarrow> None
         | Some cachedData \<Rightarrow>
             if now - timestamp cachedData < 300000 then Some (data cachedData) else None)
      else None)"

definition http_error :: "nat \<Rightarrow> js_error" where
  "http_error code = JsError ''Error'' (''HTTP error! status: '' @ show_nat code)"

text \<open>Lines 44 to 70, the body of \<open>try\<close>: the error thrown in it, or the data
  and the object with the entry stored.\<close>

definition try_block :: "call_env \<Rightarrow> string \<Rightarrow> ApiManager \<Rightarrow> js_error + json \<times> ApiManager" where
  "try_block env key this =
     (case fetch_with_timer (requestTimeout this) env of
        Inl error \<Rightarrow> Inl error
      | Inr response \<Rightarrow>
          if \<not> response_ok response then Inl (http_error (status response))
          else
            (case json_body response of
               Inl error \<Rightarrow> Inl error
             | Inr d \<Rightarrow>
                 Inr (d, this \<lparr> cache := Map_set (cache this) key
                                   \<lparr> data = d, timestamp = now_at_store env \<rparr> \<rparr>)))"

text \<open>Lines 71 to 74, the handler: a new \<open>Error\<close> around the message.\<close>

definition rethrow :: "js_error \<Rightarrow> js_error" where
  "rethrow error = JsError ''Error'' (''Falha ao carregar dados: '' @ err_message error)"

text \<open>
  The result of a call: what it returns or throws, the object afterwards, and the
  requests it handed to \<open>fetch\<close>, in order.
\<close>

record 'o call_result =
  outcome :: "js_error + json"
  this_after :: ApiManager
  fetched :: "(string \<times> 'o) list"

definition makeRequest ::
  "('o \<Rightarrow> string) \<Rightarrow> call_env \<Rightarrow> string \<Rightarrow> 'o \<Rightarrow> ApiManager \<Rightarrow> 'o call_result" where
  "makeRequest stringify env url options this =
     (let key = cacheKey stringify url options in
      case cache_lookup this key (now_at_check env) of
        Some d \<Rightarrow> \<lparr> outcome = Inr d, this_after = this, fetched = [] \<rparr>
      | None \<Rightarrow>
          (case try_block env key this of
             Inr (d, this') \<Rightarrow>
               \<lparr> outcome = Inr d, this_after = this', fetched = [(url, options)] \<rparr>
           | Inl error \<Rightarrow>
               \<lparr> outcome = Inl (rethrow error), this_after = this,
                 fetched = [(url, options)] \<rparr>))"

text \<open>
  The time in milliseconds, counted from the call, at which the promise of
  \<open>makeRequest\<close> settles. A call served from the cache awaits nothing. Otherwise the
  call awaits \<open>fetch\<close> at line 51, which settles by itself or, at the latest, when
  the timer aborts it; only when it resolved with a status from 200 to 299 does the call
  await the body at line 62, and by then line 56 has cleared the timer.
\<close>

definition call_settles_after ::
  "('o \<Rightarrow> string) \<Rightarrow> call_env \<Rightarrow> string \<Rightarrow> 'o \<Rightarrow> ApiManager \<Rightarrow> nat" where
  "call_settles_after stringify env url options this =
     (case cache_lookup this (cacheKey stringify url options) (now_at_check env) of
        Some d \<Rightarrow> 0
      | None \<Rightarrow>
          (case fetch_settles_after env of
             None \<Rightarrow> requestTimeout this
           | Some t \<Rightarrow>
               if t < requestTimeout this then
                 (case fetch_settles_to env of
                    Inl error \<Rightarrow> t
                  | Inr response \<Rightarrow>
                      if \<not> response_ok response then t else t + json_settles_after env)
               else requestTimeout this))"

subsection \<open>fetchProducts\<close>

text \<open>
  Lines 82 to 90. The call passes no options, so \<open>makeRequest\<close> runs with its
  default, the empty object; \<open>limit\<close> is a non-negative integer, as at the call
  site (line 385). Whatever \<open>makeRequest\<close> throws is caught and the empty array
  returned.
\<close>

definition fetchProducts ::
  "(json \<Rightarrow> string) \<Rightarrow> call_env \<Rightarrow> nat \<Rightarrow> ApiManager \<Rightarrow> json call_result" where
  "fetchProducts stringify env limit this =
     (let url = baseUrls_products this @ ''?limit='' @ show_nat limit;
          r = makeRequest stringify env url (JObj []) this
      in case outcome r of
           Inr d \<Rightarrow> r
         | Inl error \<Rightarrow> r \<lparr> outcome := Inr (JArr []) \<rparr>)"

subsection \<open>DataLoader.clearCache\<close>

text \<open>
  A \<open>DataLoader\<close> holds a reference to the manager its constructor obtained
  (line 322); the renderers it also holds touch only the page.
\<close>

record DataLoader =
  apiManager :: nat
  isLoading :: bool

definition new_DataLoader :: "js_heap \<Rightarrow> DataLoader \<times> js_heap" where
  "new_DataLoader h =
     (case new_ApiManager h of
        (r, h') \<Rightarrow> (\<lparr> apiManager = r, isLoading = False \<rparr>, h'))"

text \<open>\<open>this.cache.clear()\<close> on a manager.\<close>

definition cache_clear :: "ApiManager \<Rightarrow> ApiManager" where
  "cache_clear this = this \<lparr> cache := Map_clear (cache this) \<rparr>"

text \<open>Lines 541 to 544: the cache of the manager the loader refers to is cleared.\<close>

definition clearCache :: "DataLoader \<Rightarrow> js_heap \<Rightarrow> js_heap" where
  "clearCache this h =
     h \<lparr> objects := (objects h)
           [apiManager this := cache_clear (objects h ! apiManager this)] \<rparr>"

subsection \<open>Sequences of operations on one manager\<close>

datatype 'o api_op = MakeRequest call_env string 'o | ClearCache

fun run_op :: "('o \<Rightarrow> string) \<Rightarrow> ApiManager \<Rightarrow> 'o api_op \<Rightarrow> ApiManager" where
  "run_op stringify this (MakeRequest env url options) =
     this_after (makeRequest stringify env url options this)"
| "run_op stringify this ClearCache = cache_clear this"

definition run_ops :: "('o \<Rightarrow> string) \<Rightarrow> ApiManager \<Rightarrow> 'o api_op list \<Rightarrow> ApiManager" where
  "run_ops stringify this ops = foldl (run_op stringify) this ops"

subsection \<open>ProductRenderer.createRatingStars\<close>

text \<open>
  The two characters of the result, U+2605 and U+2606, each one UTF-16 code unit, so
  that the length of the list is the \<open>length\<close> of the JavaScript string.
\<close>

datatype star = BlackStar | WhiteStar

text \<open>
  \<open>String.prototype.repeat\<close> throws a \<open>RangeError\<close> on a negative count.
\<close>

definition js_repeat :: "star \<Rightarrow> int \<Rightarrow> js_error + star list" where
  "js_repeat c count =
     (if count < 0 then Inl (JsError ''RangeError'' ''Invalid count value'')
      else Inr (replicate (nat count) c))"

text \<open>
  \<open>rating % 1\<close>: the remainder has the sign of the dividend. A rating is a rational
  number: every finite double is one, and on doubles \<open>Math.floor\<close>, \<open>% 1\<close> and
  the comparison with 0.5 are exact.
\<close>

definition js_rem_1 :: "rat \<Rightarrow> rat" where
  "js_rem_1 x = (if 0 \<le> x then x - of_int \<lfloor>x\<rfloor> else x - of_int \<lceil>x\<rceil>)"

text \<open>Lines 249 to 257. The half star is written with the white star.\<close>

definition createRatingStars :: "rat \<Rightarrow> js_error + star list" where
  "createRatingStars rating =
     (let fullStars = \<lfloor>rating\<rfloor>;
          hasHalfStar = (js_rem_1 rating \<ge> 1 / 2);
          emptyStars = 5 - fullStars - (if hasHalfStar then 1 else 0)
      in case js_repeat BlackStar fullStars of
           Inl error \<Rightarrow> Inl error
         | Inr blacks \<Rightarrow>
             (case js_repeat WhiteStar emptyStars of
                Inl error \<Rightarrow> Inl error
              | Inr whites \<Rightarrow>
                  Inr (blacks @ (if hasHalfStar then [WhiteStar] else []) @ whites)))"

subsection \<open>The error kinds of the specification\<close>

text \<open>
  The source throws one kind of object, an \<open>Error\<close> around the message of what
  was caught. The kinds of the specification are read off the statement that threw:
  Timeout is the rejection of the aborted \<open>fetch\<close>, HttpStatus the error of line 59,
  Malformed the rejection of \<open>response.json()\<close>, Network the rejection of a
  \<open>fetch\<close> nobody aborted.
\<close>

definition timeout_kind :: "call_env \<Rightarrow> js_error \<Rightarrow> bool" where
  "timeout_kind env thrown = (thrown = rethrow (abort_reason env))"

definition http_status_kind :: "call_env \<Rightarrow> js_error \<Rightarrow> bool" where
  "http_status_kind env thrown =
     (case fetch_settles_to env of
        Inl error \<Rightarrow> False
      | Inr response \<Rightarrow> thrown = rethrow (http_error (status response)))"

definition malformed_kind :: "call_env \<Rightarrow> js_error \<Rightarrow> bool" where
  "malformed_kind env thrown =
     (case fetch_settles_to env of
        Inl error \<Rightarrow> False
      | Inr response \<Rightarrow>
          (case json_body response of
             Inl error \<Rightarrow> thrown = rethrow error
           | Inr d \<Rightarrow> False))"

definition network_kind :: "call_env \<Rightarrow> js_error \<Rightarrow> bool" where
  "network_kind env thrown =
     (case fetch_settles_to env of
        Inl error \<Rightarrow> thrown = rethrow error
      | Inr response \<Rightarrow> False)"

text \<open>
  The guarantee of section 4.1 in its words: a call returns data or fails with one of
  the three kinds Timeout, HttpStatus, Malformed.
\<close>

definition returns_or_three_kinds ::
  "('o \<Rightarrow> string) \<Rightarrow> call_env \<Rightarrow> string \<Rightarrow> 'o \<Rightarrow> ApiManager \<Rightarrow> bool" where
  "returns_or_three_kinds stringify env url options this =
     (case outcome (makeRequest stringify env url options this) of
        Inr d \<Rightarrow> True
      | Inl thrown \<Rightarrow>
          timeout_kind env thrown \<or> http_status_kind env thrown \<or> malformed_kind env thrown)"

text \<open>The timer fires before \<open>fetch\<close> settles.\<close>

definition timeout_elapses_first :: "nat \<Rightarrow> call_env \<Rightarrow> bool" where
  "timeout_elapses_first timeout env =
     (case fetch_settles_after env of None \<Rightarrow> True | Some t \<Rightarrow> timeout < t)"

text \<open>
  The time at which the whole response, status line, headers and body, is there when
  nothing aborts the request (\<open>None\<close>: never); a \<open>fetch\<close> that rejects has
  ended when it rejects.
\<close>

definition response_completes_after :: "call_env \<Rightarrow> nat option" where
  "response_completes_after env =
     (case fetch_settles_after env of
        None \<Rightarrow> None
      | Some t \<Rightarrow>
          (case fetch_settles_to env of
             Inl error \<Rightarrow> Some t
           | Inr response \<Rightarrow> Some (t + json_settles_after env)))"

text \<open>
  The guarantee of step 3 of section 4.1 and of section 8 in their words: a call that
  goes to the network and whose response is not complete when the timeout elapses fails
  with the Timeout error.
\<close>

definition timeout_bounds_response ::
  "('o \<Rightarrow> string) \<Rightarrow> call_env \<Rightarrow> string \<Rightarrow> 'o \<Rightarrow> ApiManager \<Rightarrow> bool" where
  "timeout_bounds_response stringify env url options this =
     (case cache_lookup this (cacheKey stringify url options) (now_at_check env) of
        Some d \<Rightarrow> True
      | None \<Rightarrow>
          (case response_completes_after env of
             None \<Rightarrow>
               outcome (makeRequest stringify env url options this) =
                 Inl (rethrow (abort_reason env))
           | Some t \<Rightarrow>
               if requestTimeout this < t
               then outcome (makeRequest stringify env url options this) =
                      Inl (rethrow (abort_reason env))
               else True))"

subsection \<open>Sample calls\<close>

definition sample_products :: json where
  "sample_products =
     JArr [JObj [(''id'', JNum 1), (''title'', JStr ''Backpack''), (''price'', JNum (10995 / 100))],
           JObj [(''id'', JNum 2), (''title'', JStr ''T-Shirt''), (''price'', JNum (223 / 10))]]"

definition products_url :: string where
  "products_url = ''https://fakestoreapi.com/products?limit=6''"

text \<open>
  The sample calls pass the only options the repository ever passes, the empty object
  of the default, which \<open>JSON.stringify\<close> writes as \<open>{}\<close>; the sample
  serialiser is applied to nothing else.
\<close>

definition stringify_empty :: "json \<Rightarrow> string" where
  "stringify_empty options = ''{}''"

text \<open>A request answered with status 200 and two products after 120 ms.\<close>

definition env_success :: call_env where
  "env_success =
     \<lparr> now_at_check = 1000,
       fetch_settles_after = Some 120,
       fetch_settles_to = Inr \<lparr> status = 200, json_body = Inr sample_products \<rparr>,
       abort_reason = JsError ''AbortError'' ''signal is aborted without reason'',
       json_settles_after = 0,
       now_at_store = 1120 \<rparr>"

text \<open>The same call four minutes later.\<close>

definition env_later :: call_env where
  "env_later = env_success \<lparr> now_at_check := 241000, now_at_store := 241120 \<rparr>"

text \<open>The same call six minutes later, answered with an empty catalogue.\<close>

definition env_expired :: call_env where
  "env_expired =
     env_success \<lparr> now_at_check := 361000, now_at_store := 361200,
                   fetch_settles_to := Inr \<lparr> status = 200, json_body = Inr (JArr []) \<rparr> \<rparr>"

text \<open>No connection: \<open>fetch\<close> rejects after 30 ms.\<close>

definition env_offline :: call_env where
  "env_offline =
     env_success \<lparr> fetch_settles_after := Some 30,
                   fetch_settles_to := Inl (JsError ''TypeError'' ''Failed to fetch'') \<rparr>"

text \<open>Six minutes later, a server that answers only after 15 seconds.\<close>

definition env_slow :: call_env where
  "env_slow = env_expired \<lparr> fetch_settles_after := Some 15000 \<rparr>"

text \<open>
  A server that sends status 200 and the headers after 9 seconds and takes 5 more
  seconds over the body.
\<close>

definition env_slow_body :: call_env where
  "env_slow_body =
     env_success \<lparr> fetch_settles_after := Some 9000, json_settles_after := 5000,
                   now_at_store := 15000 \<rparr>"

text \<open>A response with status 404.\<close>

definition env_not_found :: call_env where
  "env_not_found =
     env_success \<lparr> fetch_settles_to :=
       Inr \<lparr> status = 404, json_body = Inl (JsError ''SyntaxError'' ''Unexpected end of JSON input'') \<rparr> \<rparr>"

text \<open>A manager whose cache holds the products under the key of \<open>products_url\<close>,
  stored at time 1120.\<close>

definition manager_with_products :: ApiManager where
  "manager_with_products =
     ApiManager_fields \<lparr> cache :=
       [(''https://fakestoreapi.com/products?limit=6_{}'',
         \<lparr> data = sample_products, timestamp = 1120 \<rparr>)] \<rparr>"

text \<open>The store after one construction, with that cache, and a loader on it.\<close>

definition heap_with_products :: js_heap where
  "heap_with_products = \<lparr> objects = [manager_with_products], ApiManager_instance = Some 0 \<rparr>"

definition sample_loader :: DataLoader where
  "sample_loader = \<lparr> apiManager = 0, isLoading = False \<rparr>"

section \<open>Facts about the model\<close>

subsection \<open>The map operations\<close>

lemma Map_has_get: "Map_has m k \<longleftrightarrow> Map_get m k \<noteq> None"
  by (induction m) (auto split: if_splits)

lemma Map_get_set: "Map_get (Map_set m k v) k' = (if k' = k then Some v else Map_get m k')"
  by (induction m) auto

lemma keys_Map_set: "fst ` set (Map_set m k v) = insert k (fst ` set m)"
proof (induction m)
  case Nil
  show ?case by simp
next
  case (Cons p m)
  obtain a b where p: "p = (a, b)" by (cases p)
  show ?case
  proof (cases "a = k")
    case True
    then show ?thesis by (simp add: p)
  next
    case False
    then show ?thesis using Cons.IH by (simp add: p insert_commute)
  qed
qed

lemma distinct_Map_set: "distinct (map fst m) \<Longrightarrow> distinct (map fst (Map_set m k v))"
  by (induction m) (auto simp: keys_Map_set)


lemma entries_of_Nil: "k \<notin> fst ` set m \<Longrightarrow> entries_of m k = []"
  by (induction m) (auto simp: entries_of_def)

lemma entries_of_le: "distinct (map fst m) \<Longrightarrow> length (entries_of m k) \<le> 1"
  by (induction m) (auto simp: entries_of_def entries_of_Nil[unfolded entries_of_def])

lemma distinct_entries_of: "(\<forall>k. length (entries_of m k) \<le> 1) \<Longrightarrow> distinct (map fst m)"
proof (induction m)
  case Nil
  then show ?case by simp
next
  case (Cons p m)
  have "length (entries_of m k) \<le> 1" for k
    using Cons.prems[rule_format, of k] by (auto simp: entries_of_def split: if_splits)
  then have d: "distinct (map fst m)" using Cons.IH by blast
  have "fst p \<notin> fst ` set m"
  proof
    assume "fst p \<in> fst ` set m"
    then obtain q where q: "q \<in> set m" "fst q = fst p" by auto
    then have "filter (\<lambda>x. fst x = fst p) m \<noteq> []" by (auto simp: filter_empty_conv)
    then have "length (filter (\<lambda>x. fst x = fst p) m) \<ge> 1"
      by (cases "filter (\<lambda>x. fst x = fst p) m") auto
    with Cons.prems[rule_format, of "fst p"] show False by (simp add: entries_of_def)
  qed
  with d show ?case by simp
qed

lemma one_entry_iff: "(\<forall>k. length (entries_of m k) \<le> 1) \<longleftrightarrow> distinct (map fst m)"
proof
  assume "\<forall>k. length (entries_of m k) \<le> 1"
  then show "distinct (map fst m)" by (rule distinct_entries_of)
next
  assume "distinct (map fst m)"
  then show "\<forall>k. length (entries_of m k) \<le> 1" by (intro allI entries_of_le)
qed

subsection \<open>The paths of makeRequest\<close>

lemma cache_lookup_Some:
  "Map_get (cache this) key = Some e \<Longrightarrow> now - timestamp e < 300000 \<Longrightarrow>
   cache_lookup this key now = Some (data e)"
  by (simp add: cache_lookup_def Map_has_get)


lemma makeRequest_hit:
  "cache_lookup this (cacheKey stringify url options) (now_at_check env) = Some d \<Longrightarrow>
   makeRequest stringify env url options this =
     \<lparr> outcome = Inr d, this_after = this, fetched = [] \<rparr>"
  by (simp add: makeRequest_def)

lemma makeRequest_miss:
  "cache_lookup this (cacheKey stringify url options) (now_at_check env) = None \<Longrightarrow>
   makeRequest stringify env url options this =
     (case try_block env (cacheKey stringify url options) this of
        Inr (d, this') \<Rightarrow> \<lparr> outcome = Inr d, this_after = this', fetched = [(url, options)] \<rparr>
      | Inl error \<Rightarrow>
          \<lparr> outcome = Inl (rethrow error), this_after = this, fetched = [(url, options)] \<rparr>)"
  by (simp add: makeRequest_def)

lemma try_block_Inr:
  "try_block env key this = Inr (d, this') \<Longrightarrow>
   this' = this \<lparr> cache := Map_set (cache this) key \<lparr> data = d, timestamp = now_at_store env \<rparr> \<rparr>"
  by (auto simp: try_block_def split: sum.splits if_splits)

lemma fetch_with_timer_cases:
  "fetch_with_timer timeout env = Inl (abort_reason env) \<or>
   fetch_with_timer timeout env = fetch_settles_to env"
  by (simp add: fetch_with_timer_def split: option.splits)

lemma makeRequest_failure_keeps_object:
  "outcome (makeRequest stringify env url options this) = Inl thrown \<Longrightarrow>
   this_after (makeRequest stringify env url options this) = this"
  by (auto simp: makeRequest_def Let_def split: option.splits sum.splits)

lemma fetched_le_1: "length (fetched (makeRequest stringify env url options this)) \<le> 1"
  by (auto simp: makeRequest_def Let_def split: option.splits sum.splits)

lemma makeRequest_distinct:
  "distinct (map fst (cache (this_after (makeRequest stringify env url options this))))"
  if "distinct (map fst (cache this))"
proof (cases "cache_lookup this (cacheKey stringify url options) (now_at_check env)")
  case (Some d)
  with that show ?thesis by (simp add: makeRequest_hit)
next
  case None
  show ?thesis
  proof (cases "try_block env (cacheKey stringify url options) this")
    case (Inl error)
    with that show ?thesis by (simp add: makeRequest_miss[OF None])
  next
    case (Inr p)
    obtain d this' where p: "p = (d, this')" by (cases p)
    from Inr p have "cache this' = Map_set (cache this) (cacheKey stringify url options)
        \<lparr> data = d, timestamp = now_at_store env \<rparr>"
      using try_block_Inr[of env "cacheKey stringify url options" this d this'] by simp
    with that Inr p show ?thesis by (simp add: makeRequest_miss[OF None] distinct_Map_set)
  qed
qed

lemma cache_lookup_Some_iff:
  "(\<exists>d. cache_lookup this key now = Some d) \<longleftrightarrow>
   (\<exists>e. Map_get (cache this) key = Some e \<and> now - timestamp e < 300000)"
  by (auto simp: cache_lookup_def Map_has_get split: option.splits)

lemma fetched_Nil_iff:
  "fetched (makeRequest stringify env url options this) = [] \<longleftrightarrow>
   (\<exists>d. cache_lookup this (cacheKey stringify url options) (now_at_check env) = Some d)"
proof (cases "cache_lookup this (cacheKey stringify url options) (now_at_check env)")
  case None
  then show ?thesis by (simp add: makeRequest_miss split: sum.splits)
next
  case (Some d)
  then show ?thesis by (simp add: makeRequest_hit)
qed

lemma cache_after_makeRequest:
  "cache (this_after (makeRequest stringify env url options this)) =
     (if fetched (makeRequest stringify env url options this) = [] then cache this
      else case outcome (makeRequest stringify env url options this) of
             Inl thrown \<Rightarrow> cache this
           | Inr d \<Rightarrow>
               Map_set (cache this) (cacheKey stringify url options)
                 \<lparr> data = d, timestamp = now_at_store env \<rparr>)"
proof (cases "cache_lookup this (cacheKey stringify url options) (now_at_check env)")
  case (Some d)
  then show ?thesis by (simp add: makeRequest_hit)
next
  case None
  show ?thesis
  proof (cases "try_block env (cacheKey stringify url options) this")
    case (Inl error)
    then show ?thesis by (simp add: makeRequest_miss[OF None])
  next
    case (Inr p)
    obtain d this' where p: "p = (d, this')" by (cases p)
    with Inr try_block_Inr[of env "cacheKey stringify url options" this d this']
    show ?thesis by (simp add: makeRequest_miss[OF None])
  qed
qed

lemma call_settles_after_timeout:
  "cache_lookup this (cacheKey stringify url options) (now_at_check env) = None \<Longrightarrow>
   timeout_elapses_first (requestTimeout this) env \<Longrightarrow>
   call_settles_after stringify env url options this = requestTimeout this"
  by (auto simp: call_settles_after_def timeout_elapses_first_def split: option.splits)

lemma makeRequest_in_time:
  assumes miss: "cache_lookup this (cacheKey stringify url options) (now_at_check env) = None"
    and t: "fetch_settles_after env = Some t" "t < requestTimeout this"
    and r: "fetch_settles_to env = Inr resp" "response_ok resp"
  shows "outcome (makeRequest stringify env url options this) =
      (case json_body resp of Inl error \<Rightarrow> Inl (rethrow error) | Inr d \<Rightarrow> Inr d) \<and>
    call_settles_after stringify env url options this = t + json_settles_after env"
proof -
  have f: "fetch_with_timer (requestTimeout this) env = Inr resp"
    using t r by (simp add: fetch_with_timer_def)
  have "outcome (makeRequest stringify env url options this) =
      (case json_body resp of Inl error \<Rightarrow> Inl (rethrow error) | Inr d \<Rightarrow> Inr d)"
    using f r by (simp add: makeRequest_miss[OF miss] try_block_def split: sum.splits)
  moreover have "call_settles_after stringify env url options this = t + json_settles_after env"
    using miss t r by (simp add: call_settles_after_def)
  ultimately show ?thesis by simp
qed

lemma makeRequest_requestTimeout:
  "requestTimeout (this_after (makeRequest stringify env url options this)) = requestTimeout this"
proof (cases "cache_lookup this (cacheKey stringify url options) (now_at_check env)")
  case (Some x)
  then show ?thesis by (simp add: makeRequest_hit)
next
  case None
  show ?thesis
  proof (cases "try_block env (cacheKey stringify url options) this")
    case (Inl error)
    then show ?thesis by (simp add: makeRequest_miss[OF None])
  next
    case (Inr p)
    obtain d this' where p: "p = (d, this')" by (cases p)
    with Inr try_block_Inr[of env "cacheKey stringify url options" this d this']
    show ?thesis by (simp add: makeRequest_miss[OF None])
  qed
qed

lemma run_op_requestTimeout:
  "requestTimeout (run_op stringify this op) = requestTimeout this"
  by (cases op) (simp_all add: makeRequest_requestTimeout cache_clear_def)

lemma run_ops_requestTimeout:
  "requestTimeout (run_ops stringify this ops) = requestTimeout this"
  unfolding run_ops_def
  by (induction ops arbitrary: this) (simp_all add: run_op_requestTimeout)

lemma cache_clear_distinct: "distinct (map fst (cache (cache_clear this)))"
  by (simp add: cache_clear_def Map_clear_def)

lemma run_op_distinct:
  "distinct (map fst (cache this)) \<Longrightarrow> distinct (map fst (cache (run_op stringify this op)))"
  by (cases op) (simp_all add: makeRequest_distinct cache_clear_distinct)

lemma run_ops_distinct:
  "distinct (map fst (cache this)) \<Longrightarrow> distinct (map fst (cache (run_ops stringify this ops)))"
  unfolding run_ops_def
  by (induction ops arbitrary: this) (simp_all add: run_op_distinct)

subsection \<open>The constructor\<close>

lemma new_ApiManager_again: "new_ApiManager h = (r, h') \<Longrightarrow> new_ApiManager h' = (r, h')"
  by (auto simp: new_ApiManager_def Let_def split: option.splits)

lemma constructions_again:
  "new_ApiManager h' = (r, h') \<Longrightarrow> constructions n h' = (replicate n r, h')"
  by (induction n) simp_all

subsection \<open>Ratings\<close>

lemma floor_5: "0 \<le> (x::rat) \<Longrightarrow> x \<le> 5 \<Longrightarrow> 0 \<le> \<lfloor>x\<rfloor> \<and> \<lfloor>x\<rfloor> \<le> 5"
  by (simp add: floor_le_iff)

lemma half_room:
  assumes "0 \<le> (x::rat)" "x \<le> 5" "1 / 2 \<le> x - of_int \<lfloor>x\<rfloor>"
  shows "\<lfloor>x\<rfloor> \<le> 4"
proof -
  have "of_int \<lfloor>x\<rfloor> \<le> x - 1 / 2" using assms by simp
  also have "\<dots> < 5" using assms by simp
  finally have "\<lfloor>x\<rfloor> < 5" by simp
  then show ?thesis by simp
qed

subsection \<open>Unfolding the sample calls\<close>

lemmas sample_defs =
  env_success_def env_later_def env_expired_def env_offline_def env_slow_def env_not_found_def
  env_slow_body_def
  manager_with_products_def ApiManager_fields_def products_url_def sample_products_def
  stringify_empty_def heap_with_products_def sample_loader_def

lemmas run_defs =
  makeRequest_def cacheKey_def cache_lookup_def try_block_def fetch_with_timer_def
  response_ok_def rethrow_def http_error_def

section \<open>The claims\<close>

subsection \<open>C1: a call returns data or fails with a classified error\<close>

text \<open>
  Claim C1, as amended. Every call of \<open>makeRequest\<close> either returns the parsed data
  or throws an \<open>Error\<close> whose message is \<open>Falha ao carregar dados: \<close> followed
  by the message of what was caught, and which is of one of four kinds: Timeout,
  HttpStatus, Malformed or Network. A call that fails leaves the manager as it was.
\<close>

theorem makeRequest_returns_or_four_kinds:
  "(\<exists>d. outcome (makeRequest stringify env url options this) = Inr d) \<or>
   (\<exists>thrown. outcome (makeRequest stringify env url options this) = Inl thrown \<and>
      err_name thrown = ''Error'' \<and>
      (\<exists>cause. err_message thrown = ''Falha ao carregar dados: '' @ cause) \<and>
      this_after (makeRequest stringify env url options this) = this \<and>
      (timeout_kind env thrown \<or> http_status_kind env thrown \<or>
       malformed_kind env thrown \<or> network_kind env thrown))"
proof (cases "cache_lookup this (cacheKey stringify url options) (now_at_check env)")
  case (Some d)
  then show ?thesis by (simp add: makeRequest_hit)
next
  case None
  note miss = makeRequest_miss[OF None]
  show ?thesis
  proof (cases "try_block env (cacheKey stringify url options) this")
    case (Inr p)
    then show ?thesis by (cases p) (simp add: miss)
  next
    case (Inl error)
    have kinds: "timeout_kind env (rethrow error) \<or> http_status_kind env (rethrow error) \<or>
       malformed_kind env (rethrow error) \<or> network_kind env (rethrow error)"
      using Inl fetch_with_timer_cases[of "requestTimeout this" env]
      by (auto simp: try_block_def timeout_kind_def http_status_kind_def malformed_kind_def
          network_kind_def split: sum.splits if_splits)
    have "err_name (rethrow error) = ''Error''"
      and "\<exists>cause. err_message (rethrow error) = ''Falha ao carregar dados: '' @ cause"
      by (auto simp: rethrow_def)
    with kinds show ?thesis by (simp add: miss Inl)
  qed
qed

text \<open>
  The theorem at a call that finds a stale entry and a server too slow for the timer:
  the failure is of the kind Timeout.
\<close>

theorem makeRequest_returns_or_four_kinds_witness:
  "outcome (makeRequest stringify_empty env_slow products_url (JObj []) manager_with_products) =
     Inl (JsError ''Error'' ''Falha ao carregar dados: signal is aborted without reason'') \<and>
   timeout_kind env_slow
     (JsError ''Error'' ''Falha ao carregar dados: signal is aborted without reason'')"
  using makeRequest_returns_or_four_kinds
    [of stringify_empty env_slow products_url "JObj []" manager_with_products]
  by (simp add: sample_defs run_defs timeout_kind_def)

text \<open>
  Claim C1 as stated, with three kinds, fails when the connection is down: \<open>fetch\<close>
  rejects with a \<open>TypeError\<close> well before the timer, the handler wraps its message,
  and the error thrown is neither a Timeout, nor an HttpStatus, nor a Malformed one.
\<close>

theorem makeRequest_three_kinds_counterexample:
  "outcome (makeRequest stringify_empty env_offline products_url (JObj []) ApiManager_fields) =
     Inl (JsError ''Error'' ''Falha ao carregar dados: Failed to fetch'') \<and>
   \<not> returns_or_three_kinds stringify_empty env_offline products_url (JObj []) ApiManager_fields"
  by (simp add: returns_or_three_kinds_def timeout_kind_def http_status_kind_def
      malformed_kind_def sample_defs run_defs)

subsection \<open>C2: a fresh entry is served without a request\<close>

text \<open>
  Claim C2. When the cache holds an entry for the fingerprint whose age, the time of
  the check minus its timestamp, is below 300000 ms, \<open>makeRequest\<close> returns the data
  of that entry, hands nothing to \<open>fetch\<close> and leaves the manager as it was. Hence
  of two successive calls with one fingerprint, the second of which finds the entry
  within its window, the second issues no request and both together at most one; and
  when the first call fetched and returned data, a second call less than 300000 ms after
  the first stored its entry returns the same data from the cache.
\<close>

theorem makeRequest_fresh_entry_served:
  "(Map_get (cache this) (cacheKey stringify url options) = Some entry \<and>
    now_at_check env - timestamp entry < 300000 \<longrightarrow>
      makeRequest stringify env url options this =
        \<lparr> outcome = Inr (data entry), this_after = this, fetched = [] \<rparr>) \<and>
   (Map_get (cache (this_after (makeRequest stringify first_env url options this)))
        (cacheKey stringify url options) = Some found \<and>
    now_at_check second_env - timestamp found < 300000 \<longrightarrow>
      fetched (makeRequest stringify second_env url options
                 (this_after (makeRequest stringify first_env url options this))) = [] \<and>
      outcome (makeRequest stringify second_env url options
                 (this_after (makeRequest stringify first_env url options this))) =
        Inr (data found) \<and>
      length (fetched (makeRequest stringify first_env url options this) @
              fetched (makeRequest stringify second_env url options
                 (this_after (makeRequest stringify first_env url options this)))) \<le> 1) \<and>
   (fetched (makeRequest stringify first_env url options this) = [(url, options)] \<and>
    outcome (makeRequest stringify first_env url options this) = Inr d \<and>
    now_at_check second_env - now_at_store first_env < 300000 \<longrightarrow>
      makeRequest stringify second_env url options
          (this_after (makeRequest stringify first_env url options this)) =
        \<lparr> outcome = Inr d,
          this_after = this_after (makeRequest stringify first_env url options this),
          fetched = [] \<rparr>)"
proof (intro conjI impI)
  assume "Map_get (cache this) (cacheKey stringify url options) = Some entry \<and>
    now_at_check env - timestamp entry < 300000"
  then show "makeRequest stringify env url options this =
        \<lparr> outcome = Inr (data entry), this_after = this, fetched = [] \<rparr>"
    by (simp add: makeRequest_hit cache_lookup_Some)
next
  let ?first = "makeRequest stringify first_env url options this"
  let ?second = "makeRequest stringify second_env url options (this_after ?first)"
  assume "Map_get (cache (this_after ?first)) (cacheKey stringify url options) = Some found \<and>
    now_at_check second_env - timestamp found < 300000"
  then have s: "?second =
      \<lparr> outcome = Inr (data found), this_after = this_after ?first, fetched = [] \<rparr>"
    by (simp add: makeRequest_hit cache_lookup_Some)
  show "fetched ?second = []" by (simp add: s)
  show "outcome ?second = Inr (data found)" by (simp add: s)
  show "length (fetched ?first @ fetched ?second) \<le> 1"
    using fetched_le_1[of stringify first_env url options this] by (simp add: s)
next
  let ?first = "makeRequest stringify first_env url options this"
  let ?key = "cacheKey stringify url options"
  assume a: "fetched ?first = [(url, options)] \<and> outcome ?first = Inr d \<and>
    now_at_check second_env - now_at_store first_env < 300000"
  have miss: "cache_lookup this ?key (now_at_check first_env) = None"
  proof (cases "cache_lookup this ?key (now_at_check first_env)")
    case None
    then show ?thesis .
  next
    case (Some x)
    then have "fetched ?first = []" by (simp add: makeRequest_hit)
    with a show ?thesis by simp
  qed
  obtain this' where t: "try_block first_env ?key this = Inr (d, this')"
    using a by (auto simp: makeRequest_miss[OF miss] split: sum.splits)
  have after: "this_after ?first = this'"
    by (simp add: makeRequest_miss[OF miss] t)
  have "Map_get (cache this') ?key = Some \<lparr> data = d, timestamp = now_at_store first_env \<rparr>"
    using try_block_Inr[OF t] by (simp add: Map_get_set)
  then have "cache_lookup this' ?key (now_at_check second_env) = Some d"
    using a cache_lookup_Some[of this' ?key
        "\<lparr> data = d, timestamp = now_at_store first_env \<rparr>" "now_at_check second_env"]
    by simp
  then show "makeRequest stringify second_env url options (this_after ?first) =
        \<lparr> outcome = Inr d, this_after = this_after ?first, fetched = [] \<rparr>"
    by (simp add: after makeRequest_hit)
qed

text \<open>
  The theorem at a manager whose entry is four minutes old, and at two calls four minutes
  apart on a new manager: the first fetches, the second is served from the cache.
\<close>

theorem makeRequest_fresh_entry_served_witness:
  "makeRequest stringify_empty env_later products_url (JObj []) manager_with_products =
     \<lparr> outcome = Inr sample_products, this_after = manager_with_products, fetched = [] \<rparr> \<and>
   fetched (makeRequest stringify_empty env_success products_url (JObj []) ApiManager_fields) =
     [(products_url, JObj [])] \<and>
   makeRequest stringify_empty env_later products_url (JObj [])
       (this_after (makeRequest stringify_empty env_success products_url (JObj []) ApiManager_fields)) =
     \<lparr> outcome = Inr sample_products, this_after = manager_with_products, fetched = [] \<rparr>"
proof -
  have first: "makeRequest stringify_empty env_success products_url (JObj []) ApiManager_fields =
      \<lparr> outcome = Inr sample_products, this_after = manager_with_products,
        fetched = [(products_url, JObj [])] \<rparr>"
    by (simp add: sample_defs run_defs)
  have entry: "Map_get (cache manager_with_products) (cacheKey stringify_empty products_url (JObj [])) =
      Some \<lparr> data = sample_products, timestamp = 1120 \<rparr>"
    by (simp add: manager_with_products_def cacheKey_def stringify_empty_def products_url_def)
  have age: "now_at_check env_later - 1120 < 300000"
    and gap: "now_at_check env_later - now_at_store env_success < 300000"
    by (simp_all add: env_later_def env_success_def)
  show ?thesis
    using makeRequest_fresh_entry_served
      [where stringify = stringify_empty and url = products_url and options = "JObj []"
         and this = manager_with_products and env = env_later
         and entry = "\<lparr> data = sample_products, timestamp = 1120 \<rparr>"]
      makeRequest_fresh_entry_served
      [where stringify = stringify_empty and url = products_url and options = "JObj []"
         and this = ApiManager_fields and first_env = env_success and second_env = env_later
         and d = sample_products]
      first entry age gap
    by simp
qed

subsection \<open>C3: a stale entry is fetched again and replaced\<close>



subsection \<open>C4: the timer of ten seconds\<close>

text \<open>
  Claim C4, as amended. The timeout of a manager is 10000 ms, from its construction on
  and after any sequence of calls and clearings; \<open>makeRequest\<close> never changes it.
  The timer bounds the wait for \<open>fetch\<close> to resolve, that is for the status line
  and the headers. A call that goes to the network and whose timer fires before
  \<open>fetch\<close> has settled is aborted: it settles when the timeout elapses, throws the
  \<open>Error\<close> around the message of the abort, returns no data, stale or otherwise,
  and leaves the manager with its cache as it was. When \<open>fetch\<close> resolves before
  the timer, with a status from 200 to 299, the timer is cleared: the call settles as
  the body read does and when it does, however long that takes.
\<close>

theorem makeRequest_timeout:
  "requestTimeout (run_ops stringify ApiManager_fields ops) = 10000 \<and>
   requestTimeout (this_after (makeRequest stringify env url options this)) =
     requestTimeout this \<and>
   (cache_lookup this (cacheKey stringify url options) (now_at_check env) = None \<and>
    timeout_elapses_first (requestTimeout this) env \<longrightarrow>
      makeRequest stringify env url options this =
        \<lparr> outcome = Inl (rethrow (abort_reason env)), this_after = this,
          fetched = [(url, options)] \<rparr>) \<and>
   (cache_lookup this (cacheKey stringify url options) (now_at_check env) = None \<and>
    timeout_elapses_first (requestTimeout this) env \<longrightarrow>
      call_settles_after stringify env url options this = requestTimeout this) \<and>
   (cache_lookup this (cacheKey stringify url options) (now_at_check env) = None \<and>
    fetch_settles_after env = Some t \<and> t < requestTimeout this \<and>
    fetch_settles_to env = Inr resp \<and> response_ok resp \<longrightarrow>
      outcome (makeRequest stringify env url options this) =
        (case json_body resp of Inl error \<Rightarrow> Inl (rethrow error) | Inr d \<Rightarrow> Inr d) \<and>
      call_settles_after stringify env url options this = t + json_settles_after env)"
proof (intro conjI impI)
  show "requestTimeout (run_ops stringify ApiManager_fields ops) = 10000"
    by (simp add: run_ops_requestTimeout ApiManager_fields_def)
next
  show "requestTimeout (this_after (makeRequest stringify env url options this)) =
      requestTimeout this"
    by (rule makeRequest_requestTimeout)
next
  assume a: "cache_lookup this (cacheKey stringify url options) (now_at_check env) = None \<and>
    timeout_elapses_first (requestTimeout this) env"
  then have "fetch_with_timer (requestTimeout this) env = Inl (abort_reason env)"
    by (auto simp: timeout_elapses_first_def fetch_with_timer_def split: option.splits)
  then have "try_block env (cacheKey stringify url options) this = Inl (abort_reason env)"
    by (simp add: try_block_def)
  with a show "makeRequest stringify env url options this =
        \<lparr> outcome = Inl (rethrow (abort_reason env)), this_after = this,
          fetched = [(url, options)] \<rparr>"
    by (simp add: makeRequest_miss)
next
  assume "cache_lookup this (cacheKey stringify url options) (now_at_check env) = None \<and>
    timeout_elapses_first (requestTimeout this) env"
  then show "call_settles_after stringify env url options this = requestTimeout this"
    by (simp add: call_settles_after_timeout)
next
  assume a: "cache_lookup this (cacheKey stringify url options) (now_at_check env) = None \<and>
    fetch_settles_after env = Some t \<and> t < requestTimeout this \<and>
    fetch_settles_to env = Inr resp \<and> response_ok resp"
  note in_time = makeRequest_in_time[of this stringify url options env t resp]
  from a in_time show "outcome (makeRequest stringify env url options this) =
        (case json_body resp of Inl error \<Rightarrow> Inl (rethrow error) | Inr d \<Rightarrow> Inr d)"
    by blast
  from a in_time show
    "call_settles_after stringify env url options this = t + json_settles_after env"
    by blast
qed

text \<open>
  The theorem at a stale entry and a server that answers after 15 seconds: the call
  settles after 10 seconds with the message of the abort, and the stale products stay in
  the cache, unreturned. And at a new manager and a server whose headers come after 9
  seconds and whose body takes 5 more: the call settles after 14 seconds, with the data.
\<close>

theorem makeRequest_timeout_witness:
  "timeout_elapses_first 10000 env_slow \<and>
   makeRequest stringify_empty env_slow products_url (JObj []) manager_with_products =
     \<lparr> outcome = Inl (JsError ''Error''
                         ''Falha ao carregar dados: signal is aborted without reason''),
       this_after = manager_with_products, fetched = [(products_url, JObj [])] \<rparr> \<and>
   call_settles_after stringify_empty env_slow products_url (JObj []) manager_with_products =
     10000 \<and>
   outcome (makeRequest stringify_empty env_slow_body products_url (JObj [])
              ApiManager_fields) = Inr sample_products \<and>
   call_settles_after stringify_empty env_slow_body products_url (JObj []) ApiManager_fields =
     14000"
proof -
  have stale: "cache_lookup manager_with_products
      (cacheKey stringify_empty products_url (JObj [])) (now_at_check env_slow) = None"
    by (simp add: sample_defs cache_lookup_def cacheKey_def)
  have late: "timeout_elapses_first 10000 env_slow"
    by (simp add: sample_defs timeout_elapses_first_def)
  have absent: "cache_lookup ApiManager_fields
      (cacheKey stringify_empty products_url (JObj [])) (now_at_check env_slow_body) = None"
    by (simp add: sample_defs cache_lookup_def)
  have headers: "fetch_settles_after env_slow_body = Some 9000"
    "fetch_settles_to env_slow_body = Inr \<lparr> status = 200, json_body = Inr sample_products \<rparr>"
    "json_settles_after env_slow_body = 5000"
    by (simp_all add: env_slow_body_def env_success_def)
  have ok: "response_ok \<lparr> status = 200, json_body = Inr sample_products \<rparr>"
    by (simp add: response_ok_def)
  have timeouts: "requestTimeout manager_with_products = 10000"
    "requestTimeout ApiManager_fields = 10000"
    by (simp_all add: manager_with_products_def ApiManager_fields_def)
  have abort: "rethrow (abort_reason env_slow) =
      JsError ''Error'' ''Falha ao carregar dados: signal is aborted without reason''"
    by (simp add: sample_defs rethrow_def)
  note aborted = makeRequest_timeout
    [where stringify = stringify_empty and url = products_url and options = "JObj []"
       and this = manager_with_products and env = env_slow and ops = "[]"
       and t = 0 and resp = "\<lparr> status = 200, json_body = Inr sample_products \<rparr>"]
  note served = makeRequest_timeout
    [where stringify = stringify_empty and url = products_url and options = "JObj []"
       and this = ApiManager_fields and env = env_slow_body and ops = "[]"
       and t = 9000 and resp = "\<lparr> status = 200, json_body = Inr sample_products \<rparr>"]
  from aborted stale late timeouts abort
  have a: "makeRequest stringify_empty env_slow products_url (JObj []) manager_with_products =
     \<lparr> outcome = Inl (JsError ''Error''
                         ''Falha ao carregar dados: signal is aborted without reason''),
       this_after = manager_with_products, fetched = [(products_url, JObj [])] \<rparr> \<and>
   call_settles_after stringify_empty env_slow products_url (JObj []) manager_with_products =
     10000"
    by simp
  from served absent headers ok timeouts
  have b: "outcome (makeRequest stringify_empty env_slow_body products_url (JObj [])
              ApiManager_fields) = Inr sample_products \<and>
   call_settles_after stringify_empty env_slow_body products_url (JObj []) ApiManager_fields =
     14000"
    by simp
  from late a b show ?thesis by simp
qed

text \<open>
  Claim C4 as stated fails when the headers come within the ten seconds and the body does
  not. The server answers with status 200 after 9 seconds, so \<open>fetch\<close> resolves and
  line 56 clears the timer; the body read of line 62 takes 5 more seconds. The response
  is complete 14 seconds after the call, 4 seconds after the timeout would have elapsed;
  nothing aborts the request and the call returns the products and stores them.
\<close>

theorem makeRequest_timeout_counterexample:
  "makeRequest stringify_empty env_slow_body products_url (JObj []) ApiManager_fields =
     \<lparr> outcome = Inr sample_products,
       this_after = ApiManager_fields \<lparr> cache :=
         [(''https://fakestoreapi.com/products?limit=6_{}'',
           \<lparr> data = sample_products, timestamp = 15000 \<rparr>)] \<rparr>,
       fetched = [(products_url, JObj [])] \<rparr> \<and>
   response_completes_after env_slow_body = Some 14000 \<and>
   call_settles_after stringify_empty env_slow_body products_url (JObj []) ApiManager_fields =
     14000 \<and>
   \<not> timeout_bounds_response stringify_empty env_slow_body products_url (JObj [])
       ApiManager_fields"
  by (simp add: timeout_bounds_response_def response_completes_after_def
      call_settles_after_def sample_defs run_defs)

subsection \<open>C5: a status outside 200 to 299\<close>

text \<open>
  Claim C5. When a call goes to the network and the response arrives with a status
  below 200 or above 299, \<open>makeRequest\<close> throws the \<open>Error\<close> whose message
  ends in \<open>HTTP error! status: \<close> and the decimal status. Whenever a call throws,
  for whatever reason, the manager afterwards is the manager before: no entry is added
  or replaced.
\<close>

theorem makeRequest_http_status:
  "(cache_lookup this (cacheKey stringify url options) (now_at_check env) = None \<and>
    fetch_with_timer (requestTimeout this) env = Inr resp \<and>
    (status resp < 200 \<or> 299 < status resp) \<longrightarrow>
      makeRequest stringify env url options this =
        \<lparr> outcome = Inl (JsError ''Error''
              (''Falha ao carregar dados: HTTP error! status: '' @ show_nat (status resp))),
          this_after = this, fetched = [(url, options)] \<rparr>) \<and>
   (\<forall>thrown. outcome (makeRequest stringify env url options this) = Inl thrown \<longrightarrow>
      this_after (makeRequest stringify env url options this) = this)"
proof (intro conjI impI allI)
  assume a: "cache_lookup this (cacheKey stringify url options) (now_at_check env) = None \<and>
    fetch_with_timer (requestTimeout this) env = Inr resp \<and>
    (status resp < 200 \<or> 299 < status resp)"
  then have "\<not> response_ok resp" by (auto simp: response_ok_def)
  with a have "try_block env (cacheKey stringify url options) this =
      Inl (http_error (status resp))"
    by (simp add: try_block_def)
  with a show "makeRequest stringify env url options this =
        \<lparr> outcome = Inl (JsError ''Error''
              (''Falha ao carregar dados: HTTP error! status: '' @ show_nat (status resp))),
          this_after = this, fetched = [(url, options)] \<rparr>"
    by (simp add: makeRequest_miss rethrow_def http_error_def)
next
  fix thrown
  assume "outcome (makeRequest stringify env url options this) = Inl thrown"
  then show "this_after (makeRequest stringify env url options this) = this"
    by (rule makeRequest_failure_keeps_object)
qed

text \<open>The theorem at a response with status 404 on a new manager.\<close>

theorem makeRequest_http_status_witness:
  "makeRequest stringify_empty env_not_found products_url (JObj []) ApiManager_fields =
     \<lparr> outcome = Inl (JsError ''Error'' ''Falha ao carregar dados: HTTP error! status: 404''),
       this_after = ApiManager_fields, fetched = [(products_url, JObj [])] \<rparr>"
  using makeRequest_http_status
    [where stringify = stringify_empty and url = products_url and options = "JObj []"
       and this = ApiManager_fields and env = env_not_found
       and resp = "\<lparr> status = 404,
         json_body = Inl (JsError ''SyntaxError'' ''Unexpected end of JSON input'') \<rparr>"]
  by (simp add: sample_defs run_defs show_nat.simps digit_char_def)

subsection \<open>C6: fetchProducts passes the products on, or returns the empty array\<close>

text \<open>
  Claim C6. When the request underneath, \<open>makeRequest\<close> at the products URL with
  the limit, returns an array of products, however many, \<open>fetchProducts\<close> returns
  that array unchanged; when it throws, whatever the error, \<open>fetchProducts\<close>
  returns the empty array. \<open>fetchProducts\<close> itself never throws.
\<close>

theorem fetchProducts_items_or_empty:
  "(outcome (makeRequest stringify env (baseUrls_products this @ ''?limit='' @ show_nat limit)
       (JObj []) this) = Inr (JArr products) \<longrightarrow>
      outcome (fetchProducts stringify env limit this) = Inr (JArr products)) \<and>
   (outcome (makeRequest stringify env (baseUrls_products this @ ''?limit='' @ show_nat limit)
       (JObj []) this) = Inl thrown \<longrightarrow>
      outcome (fetchProducts stringify env limit this) = Inr (JArr [])) \<and>
   (\<exists>d. outcome (fetchProducts stringify env limit this) = Inr d)"
  by (auto simp: fetchProducts_def Let_def split: sum.splits)

text \<open>
  The theorem at a server that answers with two products, and at a connection that is
  down.
\<close>

theorem fetchProducts_items_or_empty_witness:
  "outcome (fetchProducts stringify_empty env_success 6 ApiManager_fields) =
     Inr sample_products \<and>
   outcome (fetchProducts stringify_empty env_offline 6 ApiManager_fields) = Inr (JArr [])"
proof -
  have url: "baseUrls_products ApiManager_fields @ ''?limit='' @ show_nat 6 = products_url"
    by (simp add: ApiManager_fields_def products_url_def show_nat.simps digit_char_def)
  have served: "outcome (makeRequest stringify_empty env_success products_url (JObj [])
      ApiManager_fields) = Inr sample_products"
    by (simp add: sample_defs run_defs)
  have failed: "outcome (makeRequest stringify_empty env_offline products_url (JObj [])
      ApiManager_fields) = Inl (JsError ''Error'' ''Falha ao carregar dados: Failed to fetch'')"
    by (simp add: sample_defs run_defs)
  note served_case = fetchProducts_items_or_empty
      [where stringify = stringify_empty and env = env_success and limit = 6
         and this = ApiManager_fields
         and products = "[JObj [(''id'', JNum 1), (''title'', JStr ''Backpack''),
                                (''price'', JNum (10995 / 100))],
                          JObj [(''id'', JNum 2), (''title'', JStr ''T-Shirt''),
                                (''price'', JNum (223 / 10))]]"
         and thrown = "JsError ''Error'' ''Falha ao carregar dados: Failed to fetch''",
       unfolded url, folded sample_products_def]
  note failed_case = fetchProducts_items_or_empty
      [where stringify = stringify_empty and env = env_offline and limit = 6
         and this = ApiManager_fields and products = "[]"
         and thrown = "JsError ''Error'' ''Falha ao carregar dados: Failed to fetch''",
       unfolded url]
  from served_case served failed_case failed show ?thesis by blast
qed

subsection \<open>C7: after clearCache every call goes to the network\<close>



subsection \<open>C8: the fingerprint, and one entry for each\<close>

text \<open>
  Claim C8. The cache key is the URL followed by a serialisation of the options, namely
  the character \<open>_\<close> and \<open>JSON.stringify\<close> of them, a function of the options
  alone, and it is the key of every request: \<open>makeRequest\<close> hands nothing to
  \<open>fetch\<close> exactly when the cache holds, under that key, an entry younger than
  300000 ms, and the cache after a call is the cache before it, but for a call that
  fetched and returned data, which sets the entry of that key and no other. The cache
  holds at most one entry for each key: after any sequence of
  \<open>makeRequest\<close> calls and clearings on a newly constructed manager, and, for any
  manager of which it is true, after one more \<open>makeRequest\<close> or one more clearing;
  \<open>clearCache\<close> keeps it true of every manager in the store.
\<close>

theorem cache_one_entry_per_fingerprint:
  "cacheKey stringify url options = url @ (CHR ''_'' # stringify options) \<and>
   (fetched (makeRequest stringify env url options this) = [] \<longleftrightarrow>
      (\<exists>e. Map_get (cache this) (cacheKey stringify url options) = Some e \<and>
           now_at_check env - timestamp e < 300000)) \<and>
   cache (this_after (makeRequest stringify env url options this)) =
     (if fetched (makeRequest stringify env url options this) = [] then cache this
      else case outcome (makeRequest stringify env url options this) of
             Inl thrown \<Rightarrow> cache this
           | Inr d \<Rightarrow>
               Map_set (cache this) (cacheKey stringify url options)
                 \<lparr> data = d, timestamp = now_at_store env \<rparr>) \<and>
   (\<forall>k. length (entries_of (cache (run_ops stringify ApiManager_fields ops)) k) \<le> 1) \<and>
   ((\<forall>k. length (entries_of (cache this) k) \<le> 1) \<longrightarrow>
      (\<forall>k. length (entries_of
               (cache (this_after (makeRequest stringify env url options this))) k) \<le> 1) \<and>
      (\<forall>k. length (entries_of (cache (cache_clear this)) k) \<le> 1)) \<and>
   ((\<forall>i k. i < length (objects h) \<longrightarrow> length (entries_of (cache (objects h ! i)) k) \<le> 1) \<longrightarrow>
      (\<forall>i k. i < length (objects (clearCache loader h)) \<longrightarrow>
         length (entries_of (cache (objects (clearCache loader h) ! i)) k) \<le> 1))"
proof (intro conjI impI)
  show "cacheKey stringify url options = url @ (CHR ''_'' # stringify options)"
    by (simp add: cacheKey_def)
next
  show "fetched (makeRequest stringify env url options this) = [] \<longleftrightarrow>
      (\<exists>e. Map_get (cache this) (cacheKey stringify url options) = Some e \<and>
           now_at_check env - timestamp e < 300000)"
    using fetched_Nil_iff[of stringify env url options this]
      cache_lookup_Some_iff[of this "cacheKey stringify url options" "now_at_check env"]
    by simp
next
  show "cache (this_after (makeRequest stringify env url options this)) =
     (if fetched (makeRequest stringify env url options this) = [] then cache this
      else case outcome (makeRequest stringify env url options this) of
             Inl thrown \<Rightarrow> cache this
           | Inr d \<Rightarrow>
               Map_set (cache this) (cacheKey stringify url options)
                 \<lparr> data = d, timestamp = now_at_store env \<rparr>)"
    by (rule cache_after_makeRequest)
next
  have "distinct (map fst (cache ApiManager_fields))" by (simp add: ApiManager_fields_def)
  then show "\<forall>k. length (entries_of (cache (run_ops stringify ApiManager_fields ops)) k) \<le> 1"
    unfolding one_entry_iff by (rule run_ops_distinct)
next
  assume "\<forall>k. length (entries_of (cache this) k) \<le> 1"
  then show "\<forall>k. length (entries_of
               (cache (this_after (makeRequest stringify env url options this))) k) \<le> 1"
    unfolding one_entry_iff by (rule makeRequest_distinct)
next
  show "\<forall>k. length (entries_of (cache (cache_clear this)) k) \<le> 1"
    unfolding one_entry_iff by (rule cache_clear_distinct)
next
  assume a: "\<forall>i k. i < length (objects h) \<longrightarrow>
    length (entries_of (cache (objects h ! i)) k) \<le> 1"
  show "\<forall>i k. i < length (objects (clearCache loader h)) \<longrightarrow>
         length (entries_of (cache (objects (clearCache loader h) ! i)) k) \<le> 1"
  proof (intro allI impI)
    fix i k
    assume i: "i < length (objects (clearCache loader h))"
    then have i': "i < length (objects h)" by (simp add: clearCache_def)
    show "length (entries_of (cache (objects (clearCache loader h) ! i)) k) \<le> 1"
    proof (cases "i = apiManager loader")
      case True
      with i' show ?thesis
        by (simp add: clearCache_def cache_clear_def Map_clear_def entries_of_def)
    next
      case False
      with a i' show ?thesis by (simp add: clearCache_def)
    qed
  qed
qed

text \<open>
  The theorem at the key of the products URL, at a run of three calls and a clearing,
  at a call that replaces a stale entry, and at the clearing of the sample store.
\<close>

theorem cache_one_entry_per_fingerprint_witness:
  "cacheKey stringify_empty products_url (JObj []) = ''https://fakestoreapi.com/products?limit=6_{}'' \<and>
   cache (this_after
       (makeRequest stringify_empty env_expired products_url (JObj []) manager_with_products)) =
     [(''https://fakestoreapi.com/products?limit=6_{}'',
       \<lparr> data = JArr [], timestamp = 361200 \<rparr>)] \<and>
   (\<forall>k. length (entries_of (cache (run_ops stringify_empty ApiManager_fields
        [MakeRequest env_success products_url (JObj []), MakeRequest env_expired products_url (JObj []),
         ClearCache, MakeRequest env_later products_url (JObj [])])) k) \<le> 1) \<and>
   (\<forall>k. length (entries_of (cache (this_after
        (makeRequest stringify_empty env_expired products_url (JObj []) manager_with_products))) k)
      \<le> 1) \<and>
   length (entries_of (cache (objects (clearCache sample_loader heap_with_products) ! 0))
        ''https://fakestoreapi.com/products?limit=6_{}'') \<le> 1"
proof -
  note t = cache_one_entry_per_fingerprint
    [where stringify = stringify_empty and url = products_url and options = "JObj []"
       and this = manager_with_products and env = env_expired
       and h = heap_with_products and loader = sample_loader
       and ops = "[MakeRequest env_success products_url (JObj []), MakeRequest env_expired products_url (JObj []),
         ClearCache, MakeRequest env_later products_url (JObj [])]"]
  have one: "\<forall>k. length (entries_of (cache manager_with_products) k) \<le> 1"
    by (simp add: manager_with_products_def entries_of_def)
  have all: "\<forall>i k. i < length (objects heap_with_products) \<longrightarrow>
      length (entries_of (cache (objects heap_with_products ! i)) k) \<le> 1"
    by (simp add: heap_with_products_def manager_with_products_def entries_of_def)
  have len: "0 < length (objects (clearCache sample_loader heap_with_products))"
    by (simp add: clearCache_def heap_with_products_def sample_loader_def)
  have key: "cacheKey stringify_empty products_url (JObj []) =
      ''https://fakestoreapi.com/products?limit=6_{}''"
    by (simp add: cacheKey_def stringify_empty_def products_url_def)
  have fetches: "fetched (makeRequest stringify_empty env_expired products_url (JObj [])
      manager_with_products) \<noteq> []"
    and returns: "outcome (makeRequest stringify_empty env_expired products_url (JObj [])
      manager_with_products) = Inr (JArr [])"
    by (simp_all add: sample_defs run_defs)
  have now: "now_at_store env_expired = 361200"
    by (simp add: env_expired_def env_success_def)
  have before: "Map_set (cache manager_with_products)
      ''https://fakestoreapi.com/products?limit=6_{}'' \<lparr> data = JArr [], timestamp = 361200 \<rparr> =
      [(''https://fakestoreapi.com/products?limit=6_{}'',
        \<lparr> data = JArr [], timestamp = 361200 \<rparr>)]"
    by (simp add: manager_with_products_def)
  from t fetches returns now before key
  have stored: "cache (this_after
       (makeRequest stringify_empty env_expired products_url (JObj []) manager_with_products)) =
     [(''https://fakestoreapi.com/products?limit=6_{}'',
       \<lparr> data = JArr [], timestamp = 361200 \<rparr>)]"
    by simp
  from t one all len key stored show ?thesis by blast
qed

subsection \<open>C9: one ApiManager\<close>

text \<open>
  Claim C9. Once a construction has returned a reference, every later construction
  returns the same reference and changes nothing in the store, however many follow, and
  a \<open>DataLoader\<close> constructed later holds that reference: all of them name the one
  object, with its one cache and its one timeout. The construction leaves the static
  field set to the reference, \<open>clearCache\<close> keeps it, and in any store where it is
  set the constructor returns it.
\<close>

theorem ApiManager_singleton:
  assumes "new_ApiManager h = (r, h')"
  shows "new_ApiManager h' = (r, h') \<and>
    constructions n h' = (replicate n r, h') \<and>
    new_DataLoader h' = (\<lparr> apiManager = r, isLoading = False \<rparr>, h') \<and>
    ApiManager_instance h' = Some r \<and>
    (\<forall>later. ApiManager_instance later = Some r \<longrightarrow> new_ApiManager later = (r, later)) \<and>
    ApiManager_instance (clearCache loader h') = Some r"
proof -
  have again: "new_ApiManager h' = (r, h')" using assms by (rule new_ApiManager_again)
  have inst: "ApiManager_instance h' = Some r"
    using assms by (auto simp: new_ApiManager_def Let_def split: option.splits)
  have later: "\<forall>later. ApiManager_instance later = Some r \<longrightarrow> new_ApiManager later = (r, later)"
    by (simp add: new_ApiManager_def)
  from again inst later show ?thesis
    by (simp add: constructions_again new_DataLoader_def clearCache_def)
qed

text \<open>
  The theorem at the empty store: the first construction allocates object 0, the next
  two return 0 and leave the store alone.
\<close>

theorem ApiManager_singleton_witness:
  "new_ApiManager initial_heap =
     (0, \<lparr> objects = [ApiManager_fields], ApiManager_instance = Some 0 \<rparr>) \<and>
   constructions (Suc (Suc 0)) \<lparr> objects = [ApiManager_fields], ApiManager_instance = Some 0 \<rparr> =
     ([0, 0], \<lparr> objects = [ApiManager_fields], ApiManager_instance = Some 0 \<rparr>) \<and>
   new_ApiManager heap_with_products = (0, heap_with_products)"
proof -
  have first: "new_ApiManager initial_heap =
      (0, \<lparr> objects = [ApiManager_fields], ApiManager_instance = Some 0 \<rparr>)"
    by (simp add: new_ApiManager_def initial_heap_def)
  have set: "ApiManager_instance heap_with_products = Some 0"
    by (simp add: heap_with_products_def)
  note t = ApiManager_singleton
    [where h = initial_heap and r = 0
       and h' = "\<lparr> objects = [ApiManager_fields], ApiManager_instance = Some 0 \<rparr>"
       and n = "Suc (Suc 0)" and loader = sample_loader]
  from t first set show ?thesis by simp
qed

subsection \<open>C10: five stars\<close>

text \<open>
  Claim C10. For a rating from 0 to 5, \<open>createRatingStars\<close> returns, without
  throwing, a string of exactly five characters: as many black stars as the floor of the
  rating, then one white star as the half-star mark when the fractional part is at least
  one half, then white stars for the rest.
\<close>

theorem createRatingStars_five_stars:
  assumes "0 \<le> rating" and "rating \<le> 5"
  shows "createRatingStars rating =
      Inr (replicate (nat \<lfloor>rating\<rfloor>) BlackStar @
           (if 1 / 2 \<le> frac rating then [WhiteStar] else []) @
           replicate (5 - nat \<lfloor>rating\<rfloor> - (if 1 / 2 \<le> frac rating then 1 else 0))
             WhiteStar) \<and>
    (\<exists>stars. createRatingStars rating = Inr stars \<and> length stars = 5)"
proof -
  define n where "n = nat \<lfloor>rating\<rfloor>"
  have f: "0 \<le> \<lfloor>rating\<rfloor>" "\<lfloor>rating\<rfloor> \<le> 5"
    using floor_5[OF assms] by blast+
  have fl: "\<lfloor>rating\<rfloor> = int n" and n5: "n \<le> 5"
    unfolding n_def using f by linarith+
  have rem: "js_rem_1 rating = frac rating" using assms by (simp add: js_rem_1_def frac_def)
  show ?thesis
  proof (cases "1 / 2 \<le> frac rating")
    case True
    have "1 / 2 \<le> rating - of_int \<lfloor>rating\<rfloor>" using True by (simp add: frac_def)
    then have "\<lfloor>rating\<rfloor> \<le> 4" by (rule half_room[OF assms])
    then have n4: "n \<le> 4" unfolding fl by linarith
    have e: "nat (4 - int n) = 4 - n" using n4 by simp
    have "createRatingStars rating =
        Inr (replicate n BlackStar @ [WhiteStar] @ replicate (4 - n) WhiteStar)"
      using n4 True
      by (simp only: createRatingStars_def Let_def rem fl) (simp add: js_repeat_def e)
    with n4 True show ?thesis by (simp add: fl)
  next
    case False
    have e: "nat (5 - int n) = 5 - n" using n5 by simp
    have "createRatingStars rating = Inr (replicate n BlackStar @ replicate (5 - n) WhiteStar)"
      using n5 False
      by (simp only: createRatingStars_def Let_def rem fl) (simp add: js_repeat_def e)
    with n5 False show ?thesis by (simp add: fl)
  qed
qed

text \<open>The theorem at the rating 4.5: four black stars and the half-star mark.\<close>

theorem createRatingStars_five_stars_witness:
  "(0::rat) \<le> 9 / 2 \<and> (9 / 2 :: rat) \<le> 5 \<and>
   createRatingStars (9 / 2) = Inr [BlackStar, BlackStar, BlackStar, BlackStar, WhiteStar]"
proof -
  have four: "\<lfloor>9 / 2 :: rat\<rfloor> = 4" by (simp add: floor_eq_iff)
  then have fl: "nat \<lfloor>9 / 2 :: rat\<rfloor> = 4" by simp
  have fr: "frac (9 / 2 :: rat) = 1 / 2" using four by (simp add: frac_def)
  have r: "replicate 4 BlackStar = [BlackStar, BlackStar, BlackStar, BlackStar]"
    by (simp add: eval_nat_numeral)
  show ?thesis
    using createRatingStars_five_stars [of "9 / 2"] by (simp add: fl fr r)
qed

end
